theory Spec2Isabelle
  imports Main
begin

section \<open>The code runner service: server.js\<close>

text \<open>
  The service is one Express route, \<^verbatim>\<open>POST /execute\<close>. Its handler has a synchronous
  part (the \<^verbatim>\<open>switch\<close> on the language, which writes the source file and composes a
  command line, then hands the command line to \<^verbatim>\<open>child_process.exec\<close>) and a callback
  that \<^verbatim>\<open>exec\<close> invokes once the child has exited. Both parts are embedded as
  functions on an explicit file system; the Node event loop that interleaves them is a
  transition function on a server state.
\<close>

subsection \<open>Values, paths and the file system\<close>

text \<open>
  The two fields the handler destructures from \<^verbatim>\<open>req.body\<close> are arbitrary JSON values,
  or \<^verbatim>\<open>undefined\<close> when the field is absent. The handler only ever compares the
  language with string literals and passes the code on to \<^verbatim>\<open>fs.writeFileSync\<close>, so numbers
  and objects carry no payload here.
\<close>

datatype jsvalue = JUndefined | JNull | JBool bool | JNumber | JStr string | JObject

record request =
  language :: jsvalue
  code :: jsvalue

type_synonym path = string

type_synonym filesystem = "path \<rightharpoonup> string"

datatype js_error = ERR_INVALID_ARG_TYPE | ENOENT

text \<open>
  \<^verbatim>\<open>path.join(dir, name)\<close> on POSIX, for a normalized directory and a plain file name
  (the only way the source calls it): the two parts separated by one slash.
\<close>

definition path_join :: "path \<Rightarrow> string \<Rightarrow> path" where
  "path_join dir name =
     (if dir = [] then name
      else if last dir = CHR ''/'' then dir @ name
      else dir @ ''/'' @ name)"

text \<open>Line 9: \<^verbatim>\<open>const tempDir = path.join(__dirname, "temp")\<close>, one directory for the
  whole process; the argument is \<^verbatim>\<open>__dirname\<close>.\<close>

definition tempDir :: "path \<Rightarrow> path" where
  "tempDir dirname = path_join dirname ''temp''"

text \<open>
  \<^verbatim>\<open>fs.writeFileSync(file, data)\<close> of Node 20 (the dockerfile's base image): the data
  must be a string (or a buffer, which a JSON body cannot produce); anything else raises
  \<^verbatim>\<open>ERR_INVALID_ARG_TYPE\<close> before the file is opened. A string replaces the file's
  content.
\<close>

definition writeFileSync :: "filesystem \<Rightarrow> path \<Rightarrow> jsvalue \<Rightarrow> js_error + filesystem" where
  "writeFileSync fs file data =
     (case data of
        JStr s \<Rightarrow> Inr (fs(file \<mapsto> s))
      | _ \<Rightarrow> Inl ERR_INVALID_ARG_TYPE)"

definition existsSync :: "filesystem \<Rightarrow> path \<Rightarrow> bool" where
  "existsSync fs file = (fs file \<noteq> None)"

text \<open>\<^verbatim>\<open>fs.unlinkSync(file)\<close> raises \<^verbatim>\<open>ENOENT\<close> when the file does not exist.\<close>

definition unlinkSync :: "filesystem \<Rightarrow> path \<Rightarrow> js_error + filesystem" where
  "unlinkSync fs file =
     (if existsSync fs file then Inr (fs(file := None)) else Inl ENOENT)"

subsection \<open>Responses\<close>

text \<open>
  The bodies the service sends: \<^verbatim>\<open>{ error: msg }\<close>, a bare JSON string
  (\<^verbatim>\<open>res.status(500).json(stderr)\<close>), \<^verbatim>\<open>{ output: b }\<close>, and the page of Express's
  default error handler, sent when a handler throws.
\<close>

datatype body = ErrorJson string | StringJson string | OutputJson bool | ErrorPage

datatype response = Response (status: nat) (payload: body)

subsection \<open>The synchronous part of the handler (lines 14 to 45)\<close>

text \<open>
  What the handler hands to \<^verbatim>\<open>exec(command, callback)\<close>: the command line, which
  \<^verbatim>\<open>exec\<close> gives to a shell, and the two variables the callback closes over.
  \<^verbatim>\<open>executable\<close> stays \<^verbatim>\<open>undefined\<close> for python and java.
\<close>

record exec_call =
  command :: string
  filename :: path
  executable :: "path option"

datatype handler_result = Responded response | Threw js_error | Spawned exec_call

definition post_execute :: "path \<Rightarrow> filesystem \<Rightarrow> request \<Rightarrow> filesystem \<times> handler_result" where
  "post_execute dirname fs req =
     (if language req = JStr ''python'' then
        (case writeFileSync fs (path_join (tempDir dirname) ''temp.py'') (code req) of
           Inl e \<Rightarrow> (fs, Threw e)
         | Inr fs' \<Rightarrow>
             (fs', Spawned \<lparr>command = ''python3 '' @ path_join (tempDir dirname) ''temp.py'',
                            filename = path_join (tempDir dirname) ''temp.py'',
                            executable = None\<rparr>))
      else if language req = JStr ''c'' \<or> language req = JStr ''c++'' then
        (case writeFileSync fs
                (path_join (tempDir dirname)
                   (''temp.'' @ (if language req = JStr ''c'' then ''c'' else ''cpp'')))
                (code req) of
           Inl e \<Rightarrow> (fs, Threw e)
         | Inr fs' \<Rightarrow>
             (fs', Spawned
                \<lparr>command = ''g++ ''
                     @ path_join (tempDir dirname)
                         (''temp.'' @ (if language req = JStr ''c'' then ''c'' else ''cpp''))
                     @ '' -o '' @ path_join (tempDir dirname) ''temp_executable''
                     @ '' && '' @ path_join (tempDir dirname) ''temp_executable'',
                 filename = path_join (tempDir dirname)
                     (''temp.'' @ (if language req = JStr ''c'' then ''c'' else ''cpp'')),
                 executable = Some (path_join (tempDir dirname) ''temp_executable'')\<rparr>))
      else if language req = JStr ''java'' then
        (case writeFileSync fs (path_join (tempDir dirname) ''Temp.java'') (code req) of
           Inl e \<Rightarrow> (fs, Threw e)
         | Inr fs' \<Rightarrow>
             (fs', Spawned
                \<lparr>command = ''javac '' @ path_join (tempDir dirname) ''Temp.java''
                     @ '' && java -cp '' @ tempDir dirname @ '' Temp'',
                 filename = path_join (tempDir dirname) ''Temp.java'',
                 executable = None\<rparr>))
      else (fs, Responded (Response 400 (ErrorJson ''Unsupported language''))))"

subsection \<open>The callback of exec (lines 45 to 57)\<close>

text \<open>
  What \<^verbatim>\<open>exec\<close> passes to its callback: \<^verbatim>\<open>error\<close> is \<^verbatim>\<open>null\<close> when the shell exited
  with code 0, and an error object carrying the exit code or the signal otherwise;
  \<^verbatim>\<open>stdout\<close> and \<^verbatim>\<open>stderr\<close> are the captured streams as strings.
\<close>

datatype exec_error = Exited nat | Killed string

record exec_outcome =
  error :: "exec_error option"
  stdout :: string
  stderr :: string

text \<open>
  \<^verbatim>\<open>String.prototype.trim\<close> removes white space and line terminators from both ends.
  Characters are the code units below 256; among them the white space of ECMAScript is
  tab, line feed, vertical tab, form feed, carriage return, space and no-break space.
\<close>

definition is_white_space :: "char \<Rightarrow> bool" where
  "is_white_space c = (of_char c \<in> {9, 10, 11, 12, 13, 32, 160 :: nat})"

definition trim :: "string \<Rightarrow> string" where
  "trim s = rev (dropWhile is_white_space (rev (dropWhile is_white_space s)))"

definition exec_callback :: "exec_call \<Rightarrow> filesystem \<Rightarrow> exec_outcome \<Rightarrow> filesystem \<times> (js_error + response)" where
  "exec_callback c fs out =
     (case unlinkSync fs (filename c) of
        Inl e \<Rightarrow> (fs, Inl e)
      | Inr fs1 \<Rightarrow>
          (case (case executable c of
                   None \<Rightarrow> Inr fs1
                 | Some ex \<Rightarrow>
                     if ex \<noteq> [] \<and> existsSync fs1 ex then unlinkSync fs1 ex else Inr fs1) of
             Inl e \<Rightarrow> (fs1, Inl e)
           | Inr fs2 \<Rightarrow>
               if error out \<noteq> None then (fs2, Inr (Response 500 (StringJson (stderr out))))
               else (fs2, Inr (Response 200 (OutputJson (trim (stdout out) = ''true''))))))"

subsection \<open>The event loop\<close>

text \<open>
  Node runs the handler's synchronous part and each callback to completion, one at a
  time. The server state holds the files, the calls to \<^verbatim>\<open>exec\<close> whose callback has not
  run yet (with the number of the request that made them), the responses sent so far
  (with the number of the request they answer), and whether the process has died of an
  uncaught exception. Express answers a handler that throws with status 500; an exception
  in a callback of \<^verbatim>\<open>exec\<close> is caught by nobody and ends the process.

  The events come from outside: a request arrives, a child process writes a file
  (\<^verbatim>\<open>g++\<close> its executable, \<^verbatim>\<open>javac\<close> its class file), a child ends with some outcome
  (it exits, or a signal ends it, as when its output exceeds the buffer of \<^verbatim>\<open>exec\<close>), or
  time passes: the child of a request has been running for so many milliseconds, having
  written so much to stdout and stderr.

  Line 45 is \<^verbatim>\<open>exec(command, callback)\<close>, without options, so \<^verbatim>\<open>exec\<close> runs with its
  default \<^verbatim>\<open>timeout\<close> of 0. With a timeout above 0, Node sends the child
  \<^verbatim>\<open>SIGTERM\<close> once it has run for that long and passes the callback an error naming the
  signal, with the streams captured so far; with the timeout 0 there is no timer.
\<close>

definition exec_timeout :: nat where
  "exec_timeout = 0"

definition timer_expired :: "nat \<Rightarrow> nat \<Rightarrow> bool" where
  "timer_expired timeout ms = (0 < timeout \<and> timeout \<le> ms)"

record server =
  files :: filesystem
  inflight :: "(nat \<times> exec_call) list"
  responses :: "(nat \<times> response) list"
  next_id :: nat
  crashed :: bool

datatype event =
    Request request
  | ChildWrite path string
  | ChildExit nat exec_outcome
  | Elapsed nat nat string string

definition on_request :: "path \<Rightarrow> server \<Rightarrow> request \<Rightarrow> server" where
  "on_request dirname s req =
     (case post_execute dirname (files s) req of
        (fs', Responded r) \<Rightarrow>
          s\<lparr>files := fs', responses := responses s @ [(next_id s, r)], next_id := Suc (next_id s)\<rparr>
      | (fs', Threw e) \<Rightarrow>
          s\<lparr>files := fs', responses := responses s @ [(next_id s, Response 500 ErrorPage)],
            next_id := Suc (next_id s)\<rparr>
      | (fs', Spawned c) \<Rightarrow>
          s\<lparr>files := fs', inflight := inflight s @ [(next_id s, c)], next_id := Suc (next_id s)\<rparr>)"

definition on_exit :: "server \<Rightarrow> nat \<Rightarrow> exec_outcome \<Rightarrow> server" where
  "on_exit s i out =
     (case map_of (inflight s) i of
        None \<Rightarrow> s
      | Some c \<Rightarrow>
          (case exec_callback c (files s) out of
             (fs', Inl e) \<Rightarrow>
               s\<lparr>files := fs', inflight := filter (\<lambda>p. fst p \<noteq> i) (inflight s), crashed := True\<rparr>
           | (fs', Inr r) \<Rightarrow>
               s\<lparr>files := fs', inflight := filter (\<lambda>p. fst p \<noteq> i) (inflight s),
                 responses := responses s @ [(i, r)]\<rparr>))"

definition step :: "path \<Rightarrow> server \<Rightarrow> event \<Rightarrow> server" where
  "step dirname s ev =
     (if crashed s then s
      else case ev of
        Request req \<Rightarrow> on_request dirname s req
      | ChildWrite file data \<Rightarrow> s\<lparr>files := (files s)(file \<mapsto> data)\<rparr>
      | ChildExit i out \<Rightarrow> on_exit s i out
      | Elapsed i ms out err \<Rightarrow>
          if timer_expired exec_timeout ms
          then on_exit s i \<lparr>error = Some (Killed ''SIGTERM''), stdout = out, stderr = err\<rparr>
          else s)"

definition run :: "path \<Rightarrow> server \<Rightarrow> event list \<Rightarrow> server" where
  "run dirname s evs = foldl (step dirname) s evs"

text \<open>The server right after start: the directory exists and is empty.\<close>

definition start :: server where
  "start = \<lparr>files = Map.empty, inflight = [], responses = [], next_id = 0, crashed = False\<rparr>"

section \<open>Auxiliary facts\<close>

lemmas model_defs = run_def step_def on_request_def on_exit_def post_execute_def
  exec_callback_def writeFileSync_def unlinkSync_def existsSync_def path_join_def
  tempDir_def start_def trim_def is_white_space_def exec_timeout_def timer_expired_def

lemma run_Nil [simp]: "run dirname s [] = s"
  by (simp add: run_def)

lemma run_Cons [simp]: "run dirname s (ev # evs) = run dirname (step dirname s ev) evs"
  by (simp add: run_def)

text \<open>The four ways the handler reaches \<^verbatim>\<open>exec\<close>, one per branch of the switch.\<close>

lemma post_execute_cases:
  assumes "post_execute dirname fs req = (fs', Spawned c)"
  obtains (python) src where "language req = JStr ''python''" "code req = JStr src"
      "fs' = fs(path_join (tempDir dirname) ''temp.py'' \<mapsto> src)"
      "c = \<lparr>command = ''python3 '' @ path_join (tempDir dirname) ''temp.py'',
            filename = path_join (tempDir dirname) ''temp.py'', executable = None\<rparr>"
  | (c) src where "language req = JStr ''c''" "code req = JStr src"
      "fs' = fs(path_join (tempDir dirname) ''temp.c'' \<mapsto> src)"
      "c = \<lparr>command = ''g++ '' @ path_join (tempDir dirname) ''temp.c''
                 @ '' -o '' @ path_join (tempDir dirname) ''temp_executable''
                 @ '' && '' @ path_join (tempDir dirname) ''temp_executable'',
            filename = path_join (tempDir dirname) ''temp.c'',
            executable = Some (path_join (tempDir dirname) ''temp_executable'')\<rparr>"
  | (cpp) src where "language req = JStr ''c++''" "code req = JStr src"
      "fs' = fs(path_join (tempDir dirname) ''temp.cpp'' \<mapsto> src)"
      "c = \<lparr>command = ''g++ '' @ path_join (tempDir dirname) ''temp.cpp''
                 @ '' -o '' @ path_join (tempDir dirname) ''temp_executable''
                 @ '' && '' @ path_join (tempDir dirname) ''temp_executable'',
            filename = path_join (tempDir dirname) ''temp.cpp'',
            executable = Some (path_join (tempDir dirname) ''temp_executable'')\<rparr>"
  | (java) src where "language req = JStr ''java''" "code req = JStr src"
      "fs' = fs(path_join (tempDir dirname) ''Temp.java'' \<mapsto> src)"
      "c = \<lparr>command = ''javac '' @ path_join (tempDir dirname) ''Temp.java''
                 @ '' && java -cp '' @ tempDir dirname @ '' Temp'',
            filename = path_join (tempDir dirname) ''Temp.java'', executable = None\<rparr>"
  using assms
  by (auto simp: post_execute_def writeFileSync_def split: if_splits sum.splits jsvalue.splits)

lemma post_execute_valid:
  assumes "language req \<in> {JStr ''python'', JStr ''c'', JStr ''c++'', JStr ''java''}"
    and "code req = JStr src"
  shows "\<exists>fs' c. post_execute dirname fs req = (fs', Spawned c)"
  using assms by (auto simp: post_execute_def writeFileSync_def)

text \<open>
  What \<^const>\<open>trim\<close> accepts as the text \<^verbatim>\<open>true\<close>: exactly the strings that are
  \<^verbatim>\<open>true\<close> with white space before and after it.
\<close>

lemma not_white_space_true [simp]:
  "\<not> is_white_space CHR ''t''" "\<not> is_white_space CHR ''e''"
  by (simp_all add: is_white_space_def)

lemma trim_true_iff:
  "trim s = ''true'' \<longleftrightarrow>
     (\<exists>l r. s = l @ ''true'' @ r \<and> list_all is_white_space l \<and> list_all is_white_space r)"
proof
  assume t: "trim s = ''true''"
  define m where "m = dropWhile is_white_space s"
  from t have "rev (dropWhile is_white_space (rev m)) = ''true''"
    by (simp add: trim_def m_def)
  moreover have "m = rev (dropWhile is_white_space (rev m)) @ rev (takeWhile is_white_space (rev m))"
    by (metis rev_append rev_rev_ident takeWhile_dropWhile_id)
  ultimately have m: "m = ''true'' @ rev (takeWhile is_white_space (rev m))" by simp
  have "s = takeWhile is_white_space s @ m" by (simp add: m_def)
  with m have "s = takeWhile is_white_space s @ ''true'' @ rev (takeWhile is_white_space (rev m))"
    by simp
  moreover have "list_all is_white_space (takeWhile is_white_space s)"
    by (simp add: list_all_iff) (meson set_takeWhileD)
  moreover have "list_all is_white_space (rev (takeWhile is_white_space (rev m)))"
    by (simp add: list_all_iff) (meson set_takeWhileD)
  ultimately show "\<exists>l r. s = l @ ''true'' @ r \<and> list_all is_white_space l \<and> list_all is_white_space r"
    by blast
next
  assume "\<exists>l r. s = l @ ''true'' @ r \<and> list_all is_white_space l \<and> list_all is_white_space r"
  then obtain l r where s: "s = l @ ''true'' @ r"
    and l: "list_all is_white_space l" and r: "list_all is_white_space r" by blast
  from l have "dropWhile is_white_space s = ''true'' @ r"
    by (simp add: s list_all_iff dropWhile_append)
  moreover from r have "dropWhile is_white_space (rev r @ ''eurt'') = ''eurt''"
    by (simp add: list_all_iff dropWhile_append)
  ultimately show "trim s = ''true''" by (simp add: trim_def)
qed

text \<open>
  The timer of \<^verbatim>\<open>exec\<close>: a limit of five seconds has expired after six, and the limit
  the service runs with never expires.
\<close>

lemma timer_expired_example: "timer_expired 5000 6000"
  by (simp add: timer_expired_def)

lemma timer_never_expires: "\<not> timer_expired exec_timeout ms"
  by (simp add: timer_expired_def exec_timeout_def)

text \<open>Steps of the event loop that do not concern request \<open>i\<close>.\<close>

lemma next_id_step: "next_id s \<le> next_id (step dirname s ev)"
  by (auto simp: step_def on_request_def on_exit_def timer_expired_def exec_timeout_def
      split: event.splits prod.splits handler_result.splits option.splits sum.splits)

lemma inflight_step_other:
  assumes "(i, c) \<in> set (inflight s)" and "\<forall>out. ev \<noteq> ChildExit i out"
  shows "(i, c) \<in> set (inflight (step dirname s ev))"
  using assms
  by (auto simp: step_def on_request_def on_exit_def timer_expired_def exec_timeout_def
      split: event.splits prod.splits handler_result.splits option.splits sum.splits)

lemma responses_step_other:
  assumes "i < next_id s" and "\<forall>out. ev \<noteq> ChildExit i out"
  shows "filter (\<lambda>p. fst p = i) (responses (step dirname s ev))
           = filter (\<lambda>p. fst p = i) (responses s)"
  using assms
  by (auto simp: step_def on_request_def on_exit_def timer_expired_def exec_timeout_def
      split: event.splits prod.splits handler_result.splits option.splits sum.splits)

lemma step_valid_request:
  assumes "\<not> crashed s"
    and "language req \<in> {JStr ''python'', JStr ''c'', JStr ''c++'', JStr ''java''}"
    and "\<exists>src. code req = JStr src"
  shows "\<exists>fs' c. step dirname s (Request req)
           = s\<lparr>files := fs', inflight := inflight s @ [(next_id s, c)],
               next_id := Suc (next_id s)\<rparr>"
proof -
  from assms(3) obtain src where "code req = JStr src" by blast
  from post_execute_valid [OF assms(2) this]
  obtain fs' c where "post_execute dirname (files s) req = (fs', Spawned c)" by blast
  with assms(1) have "step dirname s (Request req)
           = s\<lparr>files := fs', inflight := inflight s @ [(next_id s, c)],
               next_id := Suc (next_id s)\<rparr>"
    by (simp add: step_def on_request_def)
  then show ?thesis by blast
qed

text \<open>
  The C path removes what its compiler produced: the callback finds
  \<^verbatim>\<open>temp_executable\<close> and unlinks it.
\<close>

lemma c_executable_removed:
  "files (run ''/app'' start
       [Request \<lparr>language = JStr ''c'', code = JStr ''int main() { return 0; }''\<rparr>,
        ChildWrite ''/app/temp/temp_executable'' ''7f454c46'',
        ChildExit 0 \<lparr>error = None, stdout = '''', stderr = ''''\<rparr>])
      ''/app/temp/temp_executable'' = None"
  by (simp add: model_defs)

section \<open>The claims\<close>

subsection \<open>C1: how the compile and run steps are launched\<close>

text \<open>
  Claim C1 says that neither the source code nor the file paths are ever interpolated into
  a shell command, the steps being launched as argument vectors. The handler does the
  opposite for the paths: for a python request whose source contains
  \<^verbatim>\<open>"; rm -rf /"\<close> it hands \<^verbatim>\<open>exec\<close>, and so a shell, one command line with the path of
  the source file spliced into it.
\<close>

theorem shell_command_counterexample:
  "snd (post_execute ''/app'' Map.empty
          \<lparr>language = JStr ''python'',
           code = JStr (''print('' @ [CHR 0x22] @ ''; rm -rf /'' @ [CHR 0x22] @ '')'')\<rparr>)
     = Spawned \<lparr>command = ''python3 /app/temp/temp.py'', filename = ''/app/temp/temp.py'',
                 executable = None\<rparr>"
  by (simp add: model_defs)

text \<open>
  Claim C1 as amended: the submitted source is never part of the command; the handler's
  one use of it is to store it as the content of the source file, and no other file
  changes. The compile and run steps are one command line given to a shell, fixed by the
  language alone, with the server-side paths spliced into a template:
  \<^verbatim>\<open>python3 FILE\<close> for python, \<^verbatim>\<open>g++ FILE -o EXE && EXE\<close> for c and c++, and
  \<^verbatim>\<open>javac FILE && java -cp DIR Temp\<close> for java, where DIR is the server's one
  directory, FILE is \<^verbatim>\<open>temp.py\<close>, \<^verbatim>\<open>temp.c\<close>, \<^verbatim>\<open>temp.cpp\<close> or \<^verbatim>\<open>Temp.java\<close> in it
  and EXE is \<^verbatim>\<open>temp_executable\<close> in it.
\<close>

theorem shell_command_from_paths:
  assumes "post_execute dirname fs req = (fs', Spawned c)"
  shows "(\<exists>src. code req = JStr src \<and> fs' = fs(filename c \<mapsto> src))
       \<and> (language req = JStr ''python''
            \<and> filename c = path_join (tempDir dirname) ''temp.py''
            \<and> executable c = None
            \<and> command c = ''python3 '' @ filename c
          \<or> language req = JStr ''c''
            \<and> filename c = path_join (tempDir dirname) ''temp.c''
            \<and> executable c = Some (path_join (tempDir dirname) ''temp_executable'')
            \<and> command c = ''g++ '' @ filename c
                  @ '' -o '' @ path_join (tempDir dirname) ''temp_executable''
                  @ '' && '' @ path_join (tempDir dirname) ''temp_executable''
          \<or> language req = JStr ''c++''
            \<and> filename c = path_join (tempDir dirname) ''temp.cpp''
            \<and> executable c = Some (path_join (tempDir dirname) ''temp_executable'')
            \<and> command c = ''g++ '' @ filename c
                  @ '' -o '' @ path_join (tempDir dirname) ''temp_executable''
                  @ '' && '' @ path_join (tempDir dirname) ''temp_executable''
          \<or> language req = JStr ''java''
            \<and> filename c = path_join (tempDir dirname) ''Temp.java''
            \<and> executable c = None
            \<and> command c = ''javac '' @ filename c
                  @ '' && java -cp '' @ tempDir dirname @ '' Temp'')"
  using assms by (cases rule: post_execute_cases) simp_all

theorem shell_command_from_paths_witness:
  "post_execute ''/app'' [''/app/keep'' \<mapsto> ''k'']
       \<lparr>language = JStr ''c++'', code = JStr ''int main() {}''\<rparr>
     = ([''/app/keep'' \<mapsto> ''k'', ''/app/temp/temp.cpp'' \<mapsto> ''int main() {}''],
        Spawned \<lparr>command = ''g++ /app/temp/temp.cpp -o /app/temp/temp_executable && /app/temp/temp_executable'',
                 filename = ''/app/temp/temp.cpp'',
                 executable = Some ''/app/temp/temp_executable''\<rparr>)
   \<and> path_join (tempDir ''/app'') ''temp.cpp'' = ''/app/temp/temp.cpp''
   \<and> path_join (tempDir ''/app'') ''temp_executable'' = ''/app/temp/temp_executable''"
proof -
  have h: "post_execute ''/app'' [''/app/keep'' \<mapsto> ''k'']
       \<lparr>language = JStr ''c++'', code = JStr ''int main() {}''\<rparr>
     = ([''/app/keep'' \<mapsto> ''k'', ''/app/temp/temp.cpp'' \<mapsto> ''int main() {}''],
        Spawned \<lparr>command = ''g++ /app/temp/temp.cpp -o /app/temp/temp_executable && /app/temp/temp_executable'',
                 filename = ''/app/temp/temp.cpp'',
                 executable = Some ''/app/temp/temp_executable''\<rparr>)"
    by (simp add: model_defs)
  from shell_command_from_paths [OF h] h show ?thesis by simp
qed

subsection \<open>C2: the paths of concurrent requests\<close>

text \<open>
  Claim C2 says that two requests in flight at the same time never share a path. Two
  python requests arriving one after the other, neither child having exited, are both in
  flight on the same source file, and the file holds the source of the second.
\<close>

theorem shared_path_counterexample:
  "map snd (inflight (run ''/app'' start
       [Request \<lparr>language = JStr ''python'', code = JStr ''print(1)''\<rparr>,
        Request \<lparr>language = JStr ''python'', code = JStr ''print(2)''\<rparr>]))
     = [\<lparr>command = ''python3 /app/temp/temp.py'', filename = ''/app/temp/temp.py'',
          executable = None\<rparr>,
        \<lparr>command = ''python3 /app/temp/temp.py'', filename = ''/app/temp/temp.py'',
          executable = None\<rparr>]
   \<and> files (run ''/app'' start
       [Request \<lparr>language = JStr ''python'', code = JStr ''print(1)''\<rparr>,
        Request \<lparr>language = JStr ''python'', code = JStr ''print(2)''\<rparr>])
       ''/app/temp/temp.py'' = Some ''print(2)''"
  by (simp add: model_defs)

text \<open>
  Claim C2 as amended: the paths of a request are fixed by its language and the server's
  one shared directory. Two requests with the same language use the same source file and
  the same executable path, and once the second has been accepted the file of the first
  holds the source of the second.
\<close>

theorem same_language_same_paths:
  assumes "post_execute dirname fs r1 = (fs1, Spawned c1)"
    and "post_execute dirname fs1 r2 = (fs2, Spawned c2)"
    and "language r1 = language r2"
  shows "filename c1 = filename c2 \<and> executable c1 = executable c2
       \<and> (\<exists>src. code r2 = JStr src \<and> fs2 (filename c1) = Some src)"
  using assms(1)
proof (cases rule: post_execute_cases)
  case python
  with assms(2,3) show ?thesis by (cases rule: post_execute_cases) simp_all
next
  case c
  with assms(2,3) show ?thesis by (cases rule: post_execute_cases) simp_all
next
  case cpp
  with assms(2,3) show ?thesis by (cases rule: post_execute_cases) simp_all
next
  case java
  with assms(2,3) show ?thesis by (cases rule: post_execute_cases) simp_all
qed

theorem same_language_same_paths_witness:
  "post_execute ''/app'' Map.empty \<lparr>language = JStr ''java'', code = JStr ''class A {}''\<rparr>
     = ([''/app/temp/Temp.java'' \<mapsto> ''class A {}''],
        Spawned \<lparr>command = ''javac /app/temp/Temp.java && java -cp /app/temp Temp'',
                 filename = ''/app/temp/Temp.java'', executable = None\<rparr>)
   \<and> post_execute ''/app'' [''/app/temp/Temp.java'' \<mapsto> ''class A {}'']
        \<lparr>language = JStr ''java'', code = JStr ''class B {}''\<rparr>
     = ([''/app/temp/Temp.java'' \<mapsto> ''class B {}''],
        Spawned \<lparr>command = ''javac /app/temp/Temp.java && java -cp /app/temp Temp'',
                 filename = ''/app/temp/Temp.java'', executable = None\<rparr>)
   \<and> [''/app/temp/Temp.java'' \<mapsto> ''class B {}''] ''/app/temp/Temp.java'' = Some ''class B {}''"
proof -
  have h1: "post_execute ''/app'' Map.empty \<lparr>language = JStr ''java'', code = JStr ''class A {}''\<rparr>
     = ([''/app/temp/Temp.java'' \<mapsto> ''class A {}''],
        Spawned \<lparr>command = ''javac /app/temp/Temp.java && java -cp /app/temp Temp'',
                 filename = ''/app/temp/Temp.java'', executable = None\<rparr>)"
    by (simp add: model_defs)
  have h2: "post_execute ''/app'' [''/app/temp/Temp.java'' \<mapsto> ''class A {}'']
        \<lparr>language = JStr ''java'', code = JStr ''class B {}''\<rparr>
     = ([''/app/temp/Temp.java'' \<mapsto> ''class B {}''],
        Spawned \<lparr>command = ''javac /app/temp/Temp.java && java -cp /app/temp Temp'',
                 filename = ''/app/temp/Temp.java'', executable = None\<rparr>)"
    by (simp add: model_defs)
  from same_language_same_paths [OF h1 h2] h1 h2 show ?thesis by simp
qed

subsection \<open>C3: what is left on disk\<close>

text \<open>
  Claim C3 says that after a request no file it created remains. A java request whose
  compiler writes \<^verbatim>\<open>Temp.class\<close> next to the source is answered with status 200, the
  source is unlinked, and the class file is still there: the callback unlinks
  \<^verbatim>\<open>filename\<close> and \<^verbatim>\<open>executable\<close> only, and the java branch sets no
  \<^verbatim>\<open>executable\<close>.
\<close>

theorem java_class_file_left_behind:
  "files (run ''/app'' start
       [Request \<lparr>language = JStr ''java'', code = JStr ''public class Temp { public static void main(String[] a) { System.out.println(true); } }''\<rparr>,
        ChildWrite ''/app/temp/Temp.class'' ''cafebabe'',
        ChildExit 0 \<lparr>error = None, stdout = ''true'' @ [CHR 0x0A], stderr = ''''\<rparr>])
      ''/app/temp/Temp.class'' = Some ''cafebabe''
   \<and> files (run ''/app'' start
       [Request \<lparr>language = JStr ''java'', code = JStr ''public class Temp { public static void main(String[] a) { System.out.println(true); } }''\<rparr>,
        ChildWrite ''/app/temp/Temp.class'' ''cafebabe'',
        ChildExit 0 \<lparr>error = None, stdout = ''true'' @ [CHR 0x0A], stderr = ''''\<rparr>])
      ''/app/temp/Temp.java'' = None
   \<and> responses (run ''/app'' start
       [Request \<lparr>language = JStr ''java'', code = JStr ''public class Temp { public static void main(String[] a) { System.out.println(true); } }''\<rparr>,
        ChildWrite ''/app/temp/Temp.class'' ''cafebabe'',
        ChildExit 0 \<lparr>error = None, stdout = ''true'' @ [CHR 0x0A], stderr = ''''\<rparr>])
      = [(0, Response 200 (OutputJson True))]"
  by (simp add: model_defs)

subsection \<open>C4: the response to a failed compile or run\<close>

text \<open>
  Claim C4 says that a failure of the submitted code is answered with status 200 and a
  typed verdict, never with a 5xx status. A C++ source that does not compile makes the
  shell exit with code 1, and the response is status 500 with the compiler's stderr as
  its body.
\<close>

theorem failure_is_500_counterexample:
  "responses (run ''/app'' start
       [Request \<lparr>language = JStr ''c++'', code = JStr ''int main() { return x; }''\<rparr>,
        ChildExit 0 \<lparr>error = Some (Exited 1), stdout = '''',
                     stderr = ''error: x was not declared''\<rparr>])
     = [(0, Response 500 (StringJson ''error: x was not declared''))]"
  by (simp add: model_defs)

text \<open>
  Claim C4 as amended: when the child has exited and the source file is still there for
  the callback to unlink, a response is sent; its status is 200 if \<^verbatim>\<open>exec\<close> reports
  no error and 500 if it reports one, and in the latter case the body is the captured
  stderr, as a JSON string and with no verdict.
\<close>

theorem exit_status_mapping:
  assumes "fs (filename c) \<noteq> None"
  shows "\<exists>r. snd (exec_callback c fs out) = Inr r
           \<and> status r = (if error out = None then 200 else 500)
           \<and> (error out \<noteq> None \<longrightarrow> payload r = StringJson (stderr out))"
  using assms
  by (auto simp: exec_callback_def unlinkSync_def existsSync_def split: option.splits)

theorem exit_status_mapping_witness:
  "[''/app/temp/temp.py'' \<mapsto> ''import nothing''] ''/app/temp/temp.py'' \<noteq> None
   \<and> error \<lparr>error = Some (Exited 1), stdout = '''', stderr = ''ModuleNotFoundError''\<rparr> \<noteq> None
   \<and> (\<exists>r. snd (exec_callback
               \<lparr>command = ''python3 /app/temp/temp.py'', filename = ''/app/temp/temp.py'',
                 executable = None\<rparr>
               [''/app/temp/temp.py'' \<mapsto> ''import nothing'']
               \<lparr>error = Some (Exited 1), stdout = '''', stderr = ''ModuleNotFoundError''\<rparr>) = Inr r
          \<and> status r = 500 \<and> payload r = StringJson ''ModuleNotFoundError'')"
  using exit_status_mapping
    [of "[''/app/temp/temp.py'' \<mapsto> ''import nothing'']"
        "\<lparr>command = ''python3 /app/temp/temp.py'', filename = ''/app/temp/temp.py'',
          executable = None\<rparr>"
        "\<lparr>error = Some (Exited 1), stdout = '''', stderr = ''ModuleNotFoundError''\<rparr>"]
  by simp

subsection \<open>C5: the output of a successful run\<close>

text \<open>
  Claim C5 says that the caller receives the program's stdout verbatim, up to trimming. A
  python program that prints 42 and exits with code 0 is answered with
  \<^verbatim>\<open>{ output: false }\<close>; the text it wrote is not in the response.
\<close>

theorem stdout_collapsed_counterexample:
  "responses (run ''/app'' start
       [Request \<lparr>language = JStr ''python'', code = JStr ''print(42)''\<rparr>,
        ChildExit 0 \<lparr>error = None, stdout = ''42'' @ [CHR 0x0A], stderr = ''''\<rparr>])
     = [(0, Response 200 (OutputJson False))]"
  by (simp add: model_defs)

text \<open>
  Claim C5 as amended: when the child has exited without error and the source file is
  still there for the callback to unlink, the response is status 200 with the body
  \<^verbatim>\<open>{ output: b }\<close>, where \<open>b\<close> tells whether stdout, with the white space at both ends
  removed, is the text \<^verbatim>\<open>true\<close>. Nothing else of stdout reaches the caller.
\<close>

theorem success_collapsed_to_boolean:
  assumes "fs (filename c) \<noteq> None" and "error out = None"
  shows "snd (exec_callback c fs out)
           = Inr (Response 200 (OutputJson (trim (stdout out) = ''true'')))"
  using assms
  by (auto simp: exec_callback_def unlinkSync_def existsSync_def split: option.splits)

theorem success_collapsed_to_boolean_witness:
  "[''/app/temp/temp.py'' \<mapsto> ''print(1 < 2)''] ''/app/temp/temp.py'' \<noteq> None
   \<and> error \<lparr>error = None, stdout = '' true'' @ [CHR 0x0A], stderr = ''''\<rparr> = None
   \<and> snd (exec_callback
            \<lparr>command = ''python3 /app/temp/temp.py'', filename = ''/app/temp/temp.py'',
              executable = None\<rparr>
            [''/app/temp/temp.py'' \<mapsto> ''print(1 < 2)'']
            \<lparr>error = None, stdout = '' true'' @ [CHR 0x0A], stderr = ''''\<rparr>)
       = Inr (Response 200 (OutputJson True))"
  using success_collapsed_to_boolean
    [of "[''/app/temp/temp.py'' \<mapsto> ''print(1 < 2)'']"
        "\<lparr>command = ''python3 /app/temp/temp.py'', filename = ''/app/temp/temp.py'',
          executable = None\<rparr>"
        "\<lparr>error = None, stdout = '' true'' @ [CHR 0x0A], stderr = ''''\<rparr>"]
  by (simp add: trim_def is_white_space_def)

subsection \<open>C6: an unsupported language\<close>

text \<open>
  Claim C6: a request whose language is none of \<^verbatim>\<open>python\<close>, \<^verbatim>\<open>c\<close>, \<^verbatim>\<open>c++\<close> and
  \<^verbatim>\<open>java\<close> (another string, a value that is no string, or no language at all) is
  answered with status 400 and the body \<^verbatim>\<open>{ error: "Unsupported language" }\<close>; the
  handler writes no file, and on the running server nothing changes but the response
  being sent: no file appears and no child is launched.
\<close>

theorem unsupported_language_rejected:
  assumes "language req \<notin> {JStr ''python'', JStr ''c'', JStr ''c++'', JStr ''java''}"
  shows "post_execute dirname fs req
           = (fs, Responded (Response 400 (ErrorJson ''Unsupported language'')))
       \<and> (\<not> crashed s \<longrightarrow>
            step dirname s (Request req)
              = s\<lparr>responses := responses s
                      @ [(next_id s, Response 400 (ErrorJson ''Unsupported language''))],
                   next_id := Suc (next_id s)\<rparr>)"
  using assms by (simp add: post_execute_def step_def on_request_def)

theorem unsupported_language_rejected_witness:
  "JStr ''ruby'' \<notin> {JStr ''python'', JStr ''c'', JStr ''c++'', JStr ''java''}
   \<and> \<not> crashed start
   \<and> post_execute ''/app'' Map.empty \<lparr>language = JStr ''ruby'', code = JStr ''puts 1''\<rparr>
       = (Map.empty, Responded (Response 400 (ErrorJson ''Unsupported language'')))
   \<and> step ''/app'' start (Request \<lparr>language = JStr ''ruby'', code = JStr ''puts 1''\<rparr>)
       = start\<lparr>responses := [(0, Response 400 (ErrorJson ''Unsupported language''))],
               next_id := Suc 0\<rparr>"
  using unsupported_language_rejected
    [of "\<lparr>language = JStr ''ruby'', code = JStr ''puts 1''\<rparr>" "''/app''" Map.empty start]
  by (simp add: start_def)

subsection \<open>C7: a program that does not stop\<close>

text \<open>
  Claim C7 says that a program running longer than the configured limit is answered with
  the verdict Timeout, shortly after the limit. The handler gives \<^verbatim>\<open>exec\<close> no limit: one
  hour into a python program that loops forever and writes nothing, the request is still
  in flight and no response has been sent.
\<close>

theorem no_timeout_counterexample:
  "responses (run ''/app'' start
       [Request \<lparr>language = JStr ''python'', code = JStr ''while True: pass''\<rparr>,
        Elapsed 0 3600000 '''' '''']) = []
   \<and> map fst (inflight (run ''/app'' start
       [Request \<lparr>language = JStr ''python'', code = JStr ''while True: pass''\<rparr>,
        Elapsed 0 3600000 '''' ''''])) = [0]"
  by (simp add: model_defs)

text \<open>
  Claim C7 as amended: the service sets no time limit, and the passing of time alone never
  makes it answer a request. A request whose child has been launched is answered only
  from the callback that runs when the child has ended. However long the child has been
  running and whatever else happens (other requests, children writing files, other
  children ending), as long as that child has not ended the request stays in flight and no
  response to it is sent.
\<close>

theorem no_exit_no_response:
  assumes "(i, c) \<in> set (inflight s)" and "i < next_id s"
    and "\<forall>out. ChildExit i out \<notin> set evs"
  shows "(i, c) \<in> set (inflight (run dirname s evs))
       \<and> filter (\<lambda>p. fst p = i) (responses (run dirname s evs))
           = filter (\<lambda>p. fst p = i) (responses s)"
  using assms
proof (induction evs arbitrary: s)
  case Nil
  then show ?case by simp
next
  case (Cons ev evs)
  from Cons.prems(3) have ev: "\<forall>out. ev \<noteq> ChildExit i out" by auto
  have 1: "(i, c) \<in> set (inflight (step dirname s ev))"
    using Cons.prems(1) ev by (rule inflight_step_other)
  have 2: "i < next_id (step dirname s ev)"
    using Cons.prems(2) next_id_step [of s dirname ev] by simp
  have 3: "\<forall>out. ChildExit i out \<notin> set evs" using Cons.prems(3) by auto
  from Cons.IH [OF 1 2 3] responses_step_other [OF Cons.prems(2) ev, of dirname]
  show ?case by simp
qed

theorem no_exit_no_response_witness:
  "(0, \<lparr>command = ''python3 /app/temp/temp.py'', filename = ''/app/temp/temp.py'',
        executable = None\<rparr>)
     \<in> set (inflight (run ''/app''
          (run ''/app'' start
             [Request \<lparr>language = JStr ''python'', code = JStr ''while True: pass''\<rparr>])
          [Elapsed 0 60000 '''' '''',
           Request \<lparr>language = JStr ''java'', code = JStr ''class Temp {}''\<rparr>,
           ChildExit 1 \<lparr>error = Some (Exited 1), stdout = '''', stderr = ''no main''\<rparr>,
           Elapsed 0 3600000 '''' '''']))
   \<and> filter (\<lambda>p. fst p = 0) (responses (run ''/app''
          (run ''/app'' start
             [Request \<lparr>language = JStr ''python'', code = JStr ''while True: pass''\<rparr>])
          [Elapsed 0 60000 '''' '''',
           Request \<lparr>language = JStr ''java'', code = JStr ''class Temp {}''\<rparr>,
           ChildExit 1 \<lparr>error = Some (Exited 1), stdout = '''', stderr = ''no main''\<rparr>,
           Elapsed 0 3600000 '''' '''']))
       = []
   \<and> responses (run ''/app''
          (run ''/app'' start
             [Request \<lparr>language = JStr ''python'', code = JStr ''while True: pass''\<rparr>])
          [Elapsed 0 60000 '''' '''',
           Request \<lparr>language = JStr ''java'', code = JStr ''class Temp {}''\<rparr>,
           ChildExit 1 \<lparr>error = Some (Exited 1), stdout = '''', stderr = ''no main''\<rparr>,
           Elapsed 0 3600000 '''' ''''])
       = [(1, Response 500 (StringJson ''no main''))]"
proof -
  have h1: "(0, \<lparr>command = ''python3 /app/temp/temp.py'', filename = ''/app/temp/temp.py'',
        executable = None\<rparr>)
     \<in> set (inflight (run ''/app'' start
             [Request \<lparr>language = JStr ''python'', code = JStr ''while True: pass''\<rparr>]))"
    by (simp add: model_defs)
  have h2: "0 < next_id (run ''/app'' start
             [Request \<lparr>language = JStr ''python'', code = JStr ''while True: pass''\<rparr>])"
    by (simp add: model_defs)
  have h3: "\<forall>out. ChildExit 0 out
     \<notin> set [Elapsed 0 60000 '''' '''',
           Request \<lparr>language = JStr ''java'', code = JStr ''class Temp {}''\<rparr>,
           ChildExit 1 \<lparr>error = Some (Exited 1), stdout = '''', stderr = ''no main''\<rparr>,
           Elapsed 0 3600000 '''' '''']"
    by simp
  have h4: "responses (run ''/app''
          (run ''/app'' start
             [Request \<lparr>language = JStr ''python'', code = JStr ''while True: pass''\<rparr>])
          [Elapsed 0 60000 '''' '''',
           Request \<lparr>language = JStr ''java'', code = JStr ''class Temp {}''\<rparr>,
           ChildExit 1 \<lparr>error = Some (Exited 1), stdout = '''', stderr = ''no main''\<rparr>,
           Elapsed 0 3600000 '''' ''''])
       = [(1, Response 500 (StringJson ''no main''))]"
    by (simp add: model_defs)
  have h5: "responses (run ''/app'' start
             [Request \<lparr>language = JStr ''python'', code = JStr ''while True: pass''\<rparr>]) = []"
    by (simp add: model_defs)
  from no_exit_no_response [OF h1 h2 h3, of "''/app''"] h4 h5 show ?thesis by simp
qed

subsection \<open>C8: how many requests run at once\<close>

text \<open>
  Claim C8 says that at most N requests are in flight for a pool of size N, a further one
  waiting or being refused. The handler has no pool: nine requests arriving while no child
  has exited are all nine in flight, none refused, none waiting.
\<close>

theorem no_admission_limit_counterexample:
  "length (inflight (run ''/app'' start (map Request (replicate 9
       \<lparr>language = JStr ''python'', code = JStr ''while True: pass''\<rparr>)))) = 9
   \<and> responses (run ''/app'' start (map Request (replicate 9
       \<lparr>language = JStr ''python'', code = JStr ''while True: pass''\<rparr>))) = []"
  by (simp add: model_defs numeral_eq_Suc)

text \<open>
  Claim C8 as amended: there is no admission control. On a running server every request
  with a supported language and a string as code has its child launched at once, however
  many are in flight already: after any number of such requests all of them are in flight
  in addition to those before, and none has been answered, refused or made to wait.
\<close>

theorem every_request_started_at_once:
  assumes "\<not> crashed s"
    and "\<forall>req \<in> set reqs.
           language req \<in> {JStr ''python'', JStr ''c'', JStr ''c++'', JStr ''java''}
           \<and> (\<exists>src. code req = JStr src)"
  shows "length (inflight (run dirname s (map Request reqs)))
           = length (inflight s) + length reqs
       \<and> responses (run dirname s (map Request reqs)) = responses s
       \<and> \<not> crashed (run dirname s (map Request reqs))"
  using assms
proof (induction reqs arbitrary: s)
  case Nil
  then show ?case by simp
next
  case (Cons req reqs)
  from Cons.prems have "\<exists>fs' c. step dirname s (Request req)
           = s\<lparr>files := fs', inflight := inflight s @ [(next_id s, c)],
               next_id := Suc (next_id s)\<rparr>"
    by (intro step_valid_request) simp_all
  then obtain fs' c where st: "step dirname s (Request req)
           = s\<lparr>files := fs', inflight := inflight s @ [(next_id s, c)],
               next_id := Suc (next_id s)\<rparr>" by blast
  have "\<not> crashed (step dirname s (Request req))" using Cons.prems(1) st by simp
  moreover have "\<forall>req \<in> set reqs.
           language req \<in> {JStr ''python'', JStr ''c'', JStr ''c++'', JStr ''java''}
           \<and> (\<exists>src. code req = JStr src)" using Cons.prems(2) by simp
  ultimately have "length (inflight (run dirname (step dirname s (Request req)) (map Request reqs)))
           = length (inflight (step dirname s (Request req))) + length reqs
       \<and> responses (run dirname (step dirname s (Request req)) (map Request reqs))
           = responses (step dirname s (Request req))
       \<and> \<not> crashed (run dirname (step dirname s (Request req)) (map Request reqs))"
    by (rule Cons.IH)
  with st show ?case by simp
qed

theorem every_request_started_at_once_witness:
  "\<not> crashed start
   \<and> length (inflight (run ''/app'' start (map Request
        [\<lparr>language = JStr ''python'', code = JStr ''print(1)''\<rparr>,
         \<lparr>language = JStr ''c'', code = JStr ''int main() {}''\<rparr>,
         \<lparr>language = JStr ''java'', code = JStr ''class Temp {}''\<rparr>]))) = 3
   \<and> responses (run ''/app'' start (map Request
        [\<lparr>language = JStr ''python'', code = JStr ''print(1)''\<rparr>,
         \<lparr>language = JStr ''c'', code = JStr ''int main() {}''\<rparr>,
         \<lparr>language = JStr ''java'', code = JStr ''class Temp {}''\<rparr>])) = []"
proof -
  have h1: "\<not> crashed start" by (simp add: start_def)
  have h2: "\<forall>req \<in> set [\<lparr>language = JStr ''python'', code = JStr ''print(1)''\<rparr>,
         \<lparr>language = JStr ''c'', code = JStr ''int main() {}''\<rparr>,
         \<lparr>language = JStr ''java'', code = JStr ''class Temp {}''\<rparr>].
           language req \<in> {JStr ''python'', JStr ''c'', JStr ''c++'', JStr ''java''}
           \<and> (\<exists>src. code req = JStr src)"
    by simp
  from every_request_started_at_once [OF h1 h2, of "''/app''"] h1
  show ?thesis by (simp add: start_def)
qed

subsection \<open>C9: the command does not depend on the source\<close>

text \<open>
  Claim C9: two requests with the same language for which the handler launches a child
  hand the same command line to \<^verbatim>\<open>exec\<close>, whatever their source and whatever the
  files present. The source reaches the child only as the new content of the source file:
  the handler's one effect on the files is to store it there.
\<close>

theorem same_language_same_command:
  assumes "post_execute dirname fs1 r1 = (fs1', Spawned c1)"
    and "post_execute dirname fs2 r2 = (fs2', Spawned c2)"
    and "language r1 = language r2"
  shows "command c1 = command c2
       \<and> (\<exists>src. code r1 = JStr src \<and> fs1' = fs1(filename c1 \<mapsto> src))"
  using assms(1)
proof (cases rule: post_execute_cases)
  case python
  with assms(2,3) show ?thesis by (cases rule: post_execute_cases) simp_all
next
  case c
  with assms(2,3) show ?thesis by (cases rule: post_execute_cases) simp_all
next
  case cpp
  with assms(2,3) show ?thesis by (cases rule: post_execute_cases) simp_all
next
  case java
  with assms(2,3) show ?thesis by (cases rule: post_execute_cases) simp_all
qed

theorem same_language_same_command_witness:
  "post_execute ''/app'' Map.empty \<lparr>language = JStr ''c'', code = JStr ''int main() {}''\<rparr>
     = ([''/app/temp/temp.c'' \<mapsto> ''int main() {}''],
        Spawned \<lparr>command = ''g++ /app/temp/temp.c -o /app/temp/temp_executable && /app/temp/temp_executable'',
                 filename = ''/app/temp/temp.c'',
                 executable = Some ''/app/temp/temp_executable''\<rparr>)
   \<and> post_execute ''/app'' [''/app/temp/other'' \<mapsto> ''x'']
        \<lparr>language = JStr ''c'', code = JStr ''int main() { return 1; }''\<rparr>
     = ([''/app/temp/other'' \<mapsto> ''x'', ''/app/temp/temp.c'' \<mapsto> ''int main() { return 1; }''],
        Spawned \<lparr>command = ''g++ /app/temp/temp.c -o /app/temp/temp_executable && /app/temp/temp_executable'',
                 filename = ''/app/temp/temp.c'',
                 executable = Some ''/app/temp/temp_executable''\<rparr>)"
proof -
  have h1: "post_execute ''/app'' Map.empty \<lparr>language = JStr ''c'', code = JStr ''int main() {}''\<rparr>
     = ([''/app/temp/temp.c'' \<mapsto> ''int main() {}''],
        Spawned \<lparr>command = ''g++ /app/temp/temp.c -o /app/temp/temp_executable && /app/temp/temp_executable'',
                 filename = ''/app/temp/temp.c'',
                 executable = Some ''/app/temp/temp_executable''\<rparr>)"
    by (simp add: model_defs)
  have h2: "post_execute ''/app'' [''/app/temp/other'' \<mapsto> ''x'']
        \<lparr>language = JStr ''c'', code = JStr ''int main() { return 1; }''\<rparr>
     = ([''/app/temp/other'' \<mapsto> ''x'', ''/app/temp/temp.c'' \<mapsto> ''int main() { return 1; }''],
        Spawned \<lparr>command = ''g++ /app/temp/temp.c -o /app/temp/temp_executable && /app/temp/temp_executable'',
                 filename = ''/app/temp/temp.c'',
                 executable = Some ''/app/temp/temp_executable''\<rparr>)"
    by (simp add: model_defs)
  from same_language_same_command [OF h1 h2] h1 h2 show ?thesis by simp
qed

subsection \<open>C10: a request without code\<close>

text \<open>
  Claim C10: a request with a supported language and no \<^verbatim>\<open>code\<close> field makes the
  handler throw in \<^verbatim>\<open>fs.writeFileSync\<close>, before a command is composed: no file is
  written and no child is launched, and on the running server the caller is answered with
  status 500, not 400.
\<close>

theorem missing_code_throws:
  assumes "language req \<in> {JStr ''python'', JStr ''c'', JStr ''c++'', JStr ''java''}"
    and "code req = JUndefined"
  shows "post_execute dirname fs req = (fs, Threw ERR_INVALID_ARG_TYPE)
       \<and> (\<not> crashed s \<longrightarrow>
            step dirname s (Request req)
              = s\<lparr>responses := responses s @ [(next_id s, Response 500 ErrorPage)],
                   next_id := Suc (next_id s)\<rparr>)"
  using assms by (auto simp: post_execute_def step_def on_request_def writeFileSync_def)

theorem missing_code_throws_witness:
  "JStr ''java'' \<in> {JStr ''python'', JStr ''c'', JStr ''c++'', JStr ''java''}
   \<and> \<not> crashed start
   \<and> post_execute ''/app'' Map.empty \<lparr>language = JStr ''java'', code = JUndefined\<rparr>
       = (Map.empty, Threw ERR_INVALID_ARG_TYPE)
   \<and> step ''/app'' start (Request \<lparr>language = JStr ''java'', code = JUndefined\<rparr>)
       = start\<lparr>responses := [(0, Response 500 ErrorPage)], next_id := Suc 0\<rparr>"
  using missing_code_throws
    [of "\<lparr>language = JStr ''java'', code = JUndefined\<rparr>" "''/app''" Map.empty start]
  by (simp add: start_def)

end
